theory Spec2Isabelle
  imports Complex_Main "HOL-Library.Multiset" "HOL-Library.Sublist"
begin

section \<open>Python strings\<close>

text \<open>
  A Python \<open>str\<close> is a sequence of Unicode code points; \<open>len\<close> counts code points.
  A code point is a natural number and a string is a list of them.  Source literals are
  written with \<open>str\<close>, which reads an ASCII literal as its code points.

  The whitespace class (\<open>str.isspace\<close>, \<open>str.split\<close>, \<open>str.strip\<close> and \<open>\s\<close> of
  \<open>re\<close>) and the case-insensitive equivalences of \<open>re.IGNORECASE\<close> on ASCII letters are
  those of CPython on every code point.  The classes \<open>\d\<close>, \<open>\w\<close> and \<open>str.isupper\<close>
  are modelled on the ASCII range: a code point from 128 on belongs to none of them.
\<close>

type_synonym pystr = "nat list"

definition str :: "string \<Rightarrow> pystr" where
  "str s = map of_char s"

definition is_space :: "nat \<Rightarrow> bool" where
  "is_space c \<longleftrightarrow>
     (9 \<le> c \<and> c \<le> 13) \<or> (28 \<le> c \<and> c \<le> 32) \<or> c = 133 \<or> c = 160 \<or> c = 5760 \<or>
     (8192 \<le> c \<and> c \<le> 8202) \<or> c = 8232 \<or> c = 8233 \<or> c = 8239 \<or> c = 8287 \<or> c = 12288"

definition is_digit :: "nat \<Rightarrow> bool" where
  "is_digit c \<longleftrightarrow> 48 \<le> c \<and> c \<le> 57"

definition is_upper :: "nat \<Rightarrow> bool" where
  "is_upper c \<longleftrightarrow> 65 \<le> c \<and> c \<le> 90"

definition is_word :: "nat \<Rightarrow> bool" where
  "is_word c \<longleftrightarrow> is_digit c \<or> is_upper c \<or> (97 \<le> c \<and> c \<le> 122) \<or> c = 95"

text \<open>
  The lower-casing that \<open>re\<close> applies to one code point under \<open>IGNORECASE\<close>.  Besides
  the ASCII capitals, U+0130 lowers to \<open>i\<close> and U+212A to \<open>k\<close>; no other code point
  lowers to an ASCII letter.
\<close>

definition sre_lower :: "nat \<Rightarrow> nat" where
  "sre_lower c = (if is_upper c then c + 32 else if c = 304 then 105 else if c = 8490 then 107 else c)"

text \<open>\<open>str.split()\<close> with no argument: the maximal runs of non-whitespace.\<close>

fun split_from :: "pystr \<Rightarrow> pystr \<Rightarrow> pystr list" where
  "split_from cur [] = (if cur = [] then [] else [cur])"
| "split_from cur (c # cs) =
     (if is_space c then (if cur = [] then split_from [] cs else cur # split_from [] cs)
      else split_from (cur @ [c]) cs)"

definition py_split :: "pystr \<Rightarrow> pystr list" where
  "py_split s = split_from [] s"

text \<open>\<open>str.strip()\<close> with no argument.\<close>

definition py_strip :: "pystr \<Rightarrow> pystr" where
  "py_strip s = rev (dropWhile is_space (rev (dropWhile is_space s)))"

text \<open>
  \<open>str.replace(old, new)\<close>: the occurrences of \<open>old\<close> are replaced from the left and do
  not overlap.  An empty \<open>old\<close> puts \<open>new\<close> before every code point and at the end.
\<close>

function py_replace :: "pystr \<Rightarrow> pystr \<Rightarrow> pystr \<Rightarrow> pystr" where
  "py_replace old new s =
     (if old = [] then new @ concat (map (\<lambda>c. c # new) s)
      else if take (length old) s = old then new @ py_replace old new (drop (length old) s)
      else (case s of [] \<Rightarrow> [] | c # cs \<Rightarrow> c # py_replace old new cs))"
  by pat_completeness auto
termination
proof (relation "measure (\<lambda>(old, new, s). length s)")
  fix old new s :: pystr
  assume "old \<noteq> []" and "take (length old) s = old"
  then have "min (length s) (length old) = length old" and "0 < length old"
    by (metis length_take, simp)
  then have "length s - length old < length s"
    by arith
  then show "((old, new, drop (length old) s), (old, new, s)) \<in> measure (\<lambda>(old, new, s). length s)"
    by simp
qed auto

section \<open>Regular expressions\<close>

text \<open>
  The fragment of Python's \<open>re\<close> that the extractor's patterns use, with the backtracking
  order of the library.  Every quantifier of the source applies to a single character
  class, so the quantified items carry a class.  The flags are folded into the classes:
  \<open>LitI\<close> is a literal under \<open>re.IGNORECASE\<close>, \<open>DotAll\<close> is \<open>.\<close> under \<open>re.DOTALL\<close>.
\<close>

datatype cclass =
    Lit nat
  | LitI nat
  | Neg nat
  | Dot
  | DotAll
  | Digit
  | Space
  | Word
  | OneOf "nat list"

fun cmatch :: "cclass \<Rightarrow> nat \<Rightarrow> bool" where
  "cmatch (Lit c) x = (x = c)"
| "cmatch (LitI c) x =
     (sre_lower x = sre_lower c \<or> (sre_lower c = 105 \<and> x = 305) \<or> (sre_lower c = 115 \<and> x = 383))"
| "cmatch (Neg c) x = (x \<noteq> c)"
| "cmatch Dot x = (x \<noteq> 10)"
| "cmatch DotAll x = True"
| "cmatch Digit x = is_digit x"
| "cmatch Space x = is_space x"
| "cmatch Word x = is_word x"
| "cmatch (OneOf cs) x = (x \<in> set cs)"

datatype rx =
    One cclass
  | Opt cclass
  | Star cclass
  | Plus cclass
  | Lazy cclass
  | Alts "rx list list"
  | GOpen
  | GClose
  | BackrefI
  | Ahead "rx list"
  | Eos

text \<open>
  \<open>rx_match p s (start, grp)\<close> matches the sequence \<open>p\<close> at the beginning of \<open>s\<close>:
  \<open>None\<close> when no match exists there, otherwise the first match in backtracking order,
  as the rest of the input and the text of group 1.  \<open>start\<close> is the input at the opening
  of group 1.  \<open>One\<close> is a single character, \<open>Opt\<close>, \<open>Star\<close>, \<open>Plus\<close> the greedy
  \<open>?\<close>, \<open>*\<close>, \<open>+\<close>, \<open>Lazy\<close> the non-greedy \<open>*?\<close>, \<open>Alts\<close> a non-capturing alternation,
  \<open>BackrefI\<close> the backreference \<open>\1\<close> under \<open>IGNORECASE\<close>, \<open>Ahead\<close> the lookahead
  \<open>(?=...)\<close> and \<open>Eos\<close> the anchor \<open>$\<close> (the end of the string, or just before a
  newline that ends it).
\<close>

type_synonym capture = "pystr option \<times> pystr option"

function rx_match :: "rx list \<Rightarrow> pystr \<Rightarrow> capture \<Rightarrow> (pystr \<times> pystr option) option" where
  "rx_match [] s cap = Some (s, snd cap)"
| "rx_match (One c # p) s cap =
     (case s of [] \<Rightarrow> None
      | x # xs \<Rightarrow> if cmatch c x then rx_match p xs cap else None)"
| "rx_match (Opt c # p) s cap =
     (case s of [] \<Rightarrow> rx_match p s cap
      | x # xs \<Rightarrow>
          if cmatch c x
          then (case rx_match p xs cap of Some m \<Rightarrow> Some m | None \<Rightarrow> rx_match p s cap)
          else rx_match p s cap)"
| "rx_match (Star c # p) s cap =
     (case s of [] \<Rightarrow> rx_match p s cap
      | x # xs \<Rightarrow>
          if cmatch c x
          then (case rx_match (Star c # p) xs cap of Some m \<Rightarrow> Some m | None \<Rightarrow> rx_match p s cap)
          else rx_match p s cap)"
| "rx_match (Plus c # p) s cap =
     (case s of [] \<Rightarrow> None
      | x # xs \<Rightarrow> if cmatch c x then rx_match (Star c # p) xs cap else None)"
| "rx_match (Lazy c # p) s cap =
     (case rx_match p s cap of Some m \<Rightarrow> Some m
      | None \<Rightarrow>
          (case s of [] \<Rightarrow> None
           | x # xs \<Rightarrow> if cmatch c x then rx_match (Lazy c # p) xs cap else None))"
| "rx_match (Alts [] # p) s cap = None"
| "rx_match (Alts (a # as) # p) s cap =
     (case rx_match (a @ p) s cap of Some m \<Rightarrow> Some m | None \<Rightarrow> rx_match (Alts as # p) s cap)"
| "rx_match (GOpen # p) s cap = rx_match p s (Some s, snd cap)"
| "rx_match (GClose # p) s cap =
     rx_match p s
       (fst cap, case fst cap of None \<Rightarrow> snd cap | Some s0 \<Rightarrow> Some (take (length s0 - length s) s0))"
| "rx_match (BackrefI # p) s cap =
     (case snd cap of None \<Rightarrow> None
      | Some g \<Rightarrow>
          if length g \<le> length s \<and> map sre_lower (take (length g) s) = map sre_lower g
          then rx_match p (drop (length g) s) cap else None)"
| "rx_match (Ahead a # p) s cap =
     (case rx_match a s cap of None \<Rightarrow> None | Some m \<Rightarrow> rx_match p s cap)"
| "rx_match (Eos # p) s cap = (if s = [] \<or> s = [10] then rx_match p s cap else None)"
  by pat_completeness auto
termination
  by (relation "inv_image (less_than <*lex*> less_than) (\<lambda>(p, s, cap). (size_list size p, length s))")
    auto


text \<open>
  The scan that \<open>re.sub\<close>, \<open>re.findall\<close>, \<open>re.split\<close> and \<open>re.search\<close> share: the
  input is cut, from the left, into the matches of the pattern (\<open>Hit\<close>, with the matched
  text and group 1) and the code points between them (\<open>Skip\<close>).  After a match the scan
  goes on behind it.  No pattern of the extractor matches the empty string; for an empty
  match the scan records it and moves one code point on.
\<close>

datatype piece = Skip nat | Hit pystr "pystr option"

function rx_scan :: "rx list \<Rightarrow> pystr \<Rightarrow> piece list" where
  "rx_scan p s =
     (case rx_match p s (None, None) of
        None \<Rightarrow> (case s of [] \<Rightarrow> [] | x # xs \<Rightarrow> Skip x # rx_scan p xs)
      | Some (rest, g) \<Rightarrow>
          if length s - length rest = 0
          then (case s of [] \<Rightarrow> [Hit [] g] | x # xs \<Rightarrow> Hit [] g # Skip x # rx_scan p xs)
          else Hit (take (length s - length rest) s) g # rx_scan p (drop (length s - length rest) s))"
  by pat_completeness auto
termination
  by (relation "measure (\<lambda>(p, s). length s)") auto

fun hits :: "piece list \<Rightarrow> (pystr \<times> pystr option) list" where
  "hits [] = []"
| "hits (Skip c # ps) = hits ps"
| "hits (Hit m g # ps) = (m, g) # hits ps"

text \<open>\<open>re.findall\<close> for a pattern without a group: the matched texts.\<close>

definition re_findall :: "rx list \<Rightarrow> pystr \<Rightarrow> pystr list" where
  "re_findall p s = map fst (hits (rx_scan p s))"

text \<open>\<open>re.findall\<close> for a pattern with one group: the texts of the group.\<close>

definition group1 :: "pystr \<times> pystr option \<Rightarrow> pystr" where
  "group1 h = (case snd h of None \<Rightarrow> [] | Some g \<Rightarrow> g)"

definition re_findall_group :: "rx list \<Rightarrow> pystr \<Rightarrow> pystr list" where
  "re_findall_group p s = map group1 (hits (rx_scan p s))"

text \<open>\<open>re.search\<close>: the first match, if any.\<close>

definition re_search :: "rx list \<Rightarrow> pystr \<Rightarrow> (pystr \<times> pystr option) option" where
  "re_search p s = (case hits (rx_scan p s) of [] \<Rightarrow> None | h # hs \<Rightarrow> Some h)"

text \<open>\<open>re.sub\<close> with a replacement that has no group reference.\<close>

fun substitute :: "pystr \<Rightarrow> piece list \<Rightarrow> pystr" where
  "substitute rep [] = []"
| "substitute rep (Skip c # ps) = c # substitute rep ps"
| "substitute rep (Hit m g # ps) = rep @ substitute rep ps"

definition re_sub :: "rx list \<Rightarrow> pystr \<Rightarrow> pystr \<Rightarrow> pystr" where
  "re_sub p rep s = substitute rep (rx_scan p s)"

text \<open>\<open>re.split\<close> for a pattern without a group: the texts between the matches.\<close>

fun pieces_between :: "pystr \<Rightarrow> piece list \<Rightarrow> pystr list" where
  "pieces_between cur [] = [cur]"
| "pieces_between cur (Skip c # ps) = pieces_between (cur @ [c]) ps"
| "pieces_between cur (Hit m g # ps) = cur # pieces_between [] ps"

definition re_split :: "rx list \<Rightarrow> pystr \<Rightarrow> pystr list" where
  "re_split p s = pieces_between [] (rx_scan p s)"

text \<open>Pattern text: \<open>lit\<close> matches a literal as it is, \<open>ilit\<close> under \<open>re.IGNORECASE\<close>.\<close>

definition lit :: "string \<Rightarrow> rx list" where
  "lit s = map (\<lambda>c. One (Lit (of_char c))) s"

definition ilit :: "string \<Rightarrow> rx list" where
  "ilit s = map (\<lambda>c. One (LitI (of_char c))) s"

text \<open>\<open>[^>]*\<close> and \<open>[^"]*\<close>.\<close>

definition not_gt :: rx where
  "not_gt = Star (Neg 62)"

definition not_quote :: rx where
  "not_quote = Star (Neg 34)"


section \<open>Candidate generation\<close>

text \<open>
  The values that the extractor handles: a text, or any other value that \<open>json.loads\<close>
  returns.  A number keeps its literal.  An object keeps its members in document order;
  the dictionary that Python builds answers a key with its last member of that name.
\<close>

datatype json =
    JNull
  | JBool bool
  | JNum pystr
  | JStr pystr
  | JArr "json list"
  | JObj "(pystr \<times> json) list"

type_synonym pyval = json

definition dict_get :: "(pystr \<times> json) list \<Rightarrow> pystr \<Rightarrow> json option" where
  "dict_get d k = map_of (rev d) k"

subsection \<open>Structural patterns\<close>

text \<open>
  All but two of the patterns of \<open>_extract_patterns\<close> have the shape
  \<^verbatim>\<open><TAG[^>]*ATTR[^>]*>.*?</TAG>\<close> under \<open>re.IGNORECASE | re.DOTALL\<close>.
\<close>

definition container :: "string \<Rightarrow> rx list \<Rightarrow> rx list" where
  "container tag attr =
     ilit ''<'' @ ilit tag @ [not_gt] @ attr @ [not_gt] @ ilit ''>'' @ [Lazy DotAll] @
     ilit ''</'' @ ilit tag @ ilit ''>''"

text \<open>\<^verbatim>\<open>NAME="[^"]*VALUE[^"]*"\<close>\<close>

definition attr_has :: "string \<Rightarrow> string \<Rightarrow> rx list" where
  \<open>attr_has name v = ilit name @ ilit ''="'' @ [not_quote] @ ilit v @ [not_quote] @ ilit ''"''\<close>

text \<open>\<^verbatim>\<open>NAME="VALUE"\<close>\<close>

definition attr_is :: "string \<Rightarrow> string \<Rightarrow> rx list" where
  \<open>attr_is name v = ilit name @ ilit ''="'' @ ilit v @ ilit ''"''\<close>

text \<open>
  The two heading patterns:
  \<^verbatim>\<open><h\d[^>]*>Abstract</h\d>.*?(?=<h\d|<section|<div class="[^"]*(?:article|paper|publication)[^"]*"|<footer|<nav|$)\<close>
  and
  \<^verbatim>\<open><h\d[^>]*>Summary</h\d>.*?(?=<h\d|<section|<div|<footer|$)\<close>.
\<close>

definition heading :: "string \<Rightarrow> rx list list \<Rightarrow> rx list" where
  "heading title stops =
     ilit ''<h'' @ [One Digit, not_gt] @ ilit ''>'' @ ilit title @ ilit ''</h'' @ [One Digit] @
     ilit ''>'' @ [Lazy DotAll, Ahead [Alts stops]]"

definition abstract_heading :: "rx list" where
  \<open>abstract_heading =
     heading ''Abstract''
       [ilit ''<h'' @ [One Digit],
        ilit ''<section'',
        ilit ''<div class="'' @
          [not_quote, Alts [ilit ''article'', ilit ''paper'', ilit ''publication''], not_quote] @
          ilit ''"'',
        ilit ''<footer'',
        ilit ''<nav'',
        [Eos]]\<close>

definition summary_heading :: "rx list" where
  "summary_heading =
     heading ''Summary''
       [ilit ''<h'' @ [One Digit], ilit ''<section'', ilit ''<div'', ilit ''<footer'', [Eos]]"

text \<open>The pattern list of \<open>_extract_patterns\<close>, in the order of the source.\<close>

definition patterns :: "rx list list" where
  \<open>patterns =
    [container ''div'' (attr_has ''class'' ''abstract''),
     container ''section'' (attr_has ''class'' ''abstract''),
     container ''div'' (attr_is ''id'' ''Abs1''),
     container ''section'' (ilit ''id="Abs'' @ [Plus Digit] @ ilit ''"''),
     container ''div''
       (ilit ''class="'' @ [not_quote] @ ilit ''springer'' @ [not_quote] @ ilit ''abstract'' @
        [not_quote] @ ilit ''"''),
     container ''div'' (attr_has ''class'' ''abstract''),
     container ''section'' (ilit ''data-testid="abstract'' @ [not_quote] @ ilit ''"''),
     container ''div'' (attr_has ''id'' ''abstract''),
     container ''section'' (attr_has ''class'' ''abstractSection''),
     container ''div'' (attr_has ''class'' ''paper-abstract''),
     container ''blockquote'' (attr_has ''class'' ''abstract''),
     container ''span'' (attr_has ''class'' ''abstract''),
     container ''div'' (attr_is ''role'' ''doc-abstract''),
     container ''article'' (attr_is ''id'' ''abstract''),
     container ''div'' (attr_is ''id'' ''abstract''),
     container ''section'' (attr_is ''id'' ''abstract''),
     abstract_heading,
     summary_heading,
     container ''div'' (attr_has ''class'' ''note_content_value''),
     container ''div'' (attr_has ''class'' ''abstract-text''),
     container ''div'' (attr_is ''data-test-id'' ''paper-abstract'')]\<close>

text \<open>
  \<open>_extract_patterns\<close>: the matches of every pattern, pattern after pattern.  The handler
  for \<open>re.error\<close> has no branch here: a pattern of the list compiles.
\<close>

definition extract_patterns :: "pystr \<Rightarrow> pystr list" where
  "extract_patterns html_content = concat (map (\<lambda>pattern. re_findall pattern html_content) patterns)"

subsection \<open>Meta tags\<close>

text \<open>\<^verbatim>\<open><meta[^>]*ATTR[^>]*content="([^"]*)"\<close> under \<open>re.IGNORECASE\<close>.\<close>

definition meta_pattern :: "rx list \<Rightarrow> rx list" where
  \<open>meta_pattern attr =
     ilit ''<meta'' @ [not_gt] @ attr @ [not_gt] @ ilit ''content="'' @ [GOpen, not_quote, GClose] @
     ilit ''"''\<close>

definition search_group :: "rx list \<Rightarrow> pystr \<Rightarrow> pystr list" where
  "search_group p s = (case re_search p s of None \<Rightarrow> [] | Some h \<Rightarrow> [group1 h])"

definition extract_meta_tags :: "pystr \<Rightarrow> pystr list" where
  "extract_meta_tags html_content =
     search_group (meta_pattern (attr_is ''name'' ''description'')) html_content @
     search_group (meta_pattern (attr_is ''property'' ''og:description'')) html_content @
     search_group (meta_pattern (attr_is ''name'' ''twitter:description'')) html_content"


subsection \<open>JSON\<close>

text \<open>
  \<open>json.loads\<close> on a \<open>str\<close>, as CPython's decoder with its default settings.  It raises
  \<open>JSONDecodeError\<close> on a text that is not JSON, and \<open>ValueError\<close> on an integer literal
  of more than 4300 digits (the default limit of the interpreter on the conversion of a
  decimal string to \<open>int\<close>).  The limit of the interpreter on the nesting depth is not
  modelled.

  The text is first cut into tokens; a code point that starts no token ends the list
  with \<open>TBad\<close>.  A number token keeps its literal and whether it has a fraction or an
  exponent.
\<close>

datatype json_error = JSONDecodeError | ValueError

datatype jtoken =
    TLBrace | TRBrace | TLBracket | TRBracket | TColon | TComma
  | TString pystr
  | TNumber pystr bool
  | TWord json
  | TBad

definition is_hex :: "nat \<Rightarrow> bool" where
  "is_hex c \<longleftrightarrow> (48 \<le> c \<and> c \<le> 57) \<or> (65 \<le> c \<and> c \<le> 70) \<or> (97 \<le> c \<and> c \<le> 102)"

definition hex_val :: "nat \<Rightarrow> nat" where
  "hex_val c = (if c \<le> 57 then c - 48 else if c \<le> 70 then c - 55 else c - 87)"

text \<open>The four hexadecimal digits of a \<^verbatim>\<open>\uXXXX\<close> escape.\<close>

definition hex4 :: "pystr \<Rightarrow> nat option" where
  "hex4 s =
     (if length s \<ge> 4 \<and> list_all is_hex (take 4 s)
      then Some (foldl (\<lambda>v c. 16 * v + hex_val c) 0 (take 4 s)) else None)"

text \<open>\<^verbatim>\<open>\uXXXX\<close> at the beginning of the input.\<close>

definition uescape :: "pystr \<Rightarrow> nat option" where
  "uescape s = (if take 2 s = [92, 117] then hex4 (drop 2 s) else None)"

definition simple_escape :: "nat \<Rightarrow> nat option" where
  "simple_escape c =
     (if c = 34 \<or> c = 92 \<or> c = 47 then Some c
      else if c = 98 then Some 8
      else if c = 102 then Some 12
      else if c = 110 then Some 10
      else if c = 114 then Some 13
      else if c = 116 then Some 9
      else None)"

text \<open>
  The body of a string literal, behind the opening quote: the decoded text and the input
  behind the closing quote.  A control character is refused.  A high surrogate written
  as an escape joins a low surrogate written as the next escape.
\<close>

function json_string :: "pystr \<Rightarrow> pystr \<Rightarrow> (pystr \<times> pystr) option" where
  "json_string acc [] = None"
| "json_string acc (c # s) =
     (if c = 34 then Some (acc, s)
      else if c < 32 then None
      else if c \<noteq> 92 then json_string (acc @ [c]) s
      else (case s of [] \<Rightarrow> None
            | e # s' \<Rightarrow>
                if e = 117 then
                  (case hex4 s' of None \<Rightarrow> None
                   | Some u \<Rightarrow>
                       (case uescape (drop 4 s') of
                          None \<Rightarrow> json_string (acc @ [u]) (drop 4 s')
                        | Some u2 \<Rightarrow>
                            if 55296 \<le> u \<and> u \<le> 56319 \<and> 56320 \<le> u2 \<and> u2 \<le> 57343
                            then json_string (acc @ [65536 + (u - 55296) * 1024 + (u2 - 56320)])
                                   (drop 10 s')
                            else json_string (acc @ [u]) (drop 4 s')))
                else (case simple_escape e of None \<Rightarrow> None
                      | Some x \<Rightarrow> json_string (acc @ [x]) s')))"
  by pat_completeness auto
termination
  by (relation "measure (\<lambda>(acc, s). length s)") auto

text \<open>
  The literal of a number at the beginning of the input, by
  \<^verbatim>\<open>(-?(?:0|[1-9][0-9]*))(\.[0-9]+)?([eE][-+]?[0-9]+)?\<close>, and whether a fraction or an
  exponent is present.
\<close>

definition digits :: "pystr \<Rightarrow> pystr" where
  "digits s = takeWhile is_digit s"

definition int_part :: "pystr \<Rightarrow> pystr option" where
  "int_part s =
     (case s of [] \<Rightarrow> None
      | c # r \<Rightarrow> if c = 48 then Some [c] else if is_digit c then Some (c # digits r) else None)"

definition frac_part :: "pystr \<Rightarrow> pystr" where
  "frac_part s =
     (case s of [] \<Rightarrow> []
      | c # r \<Rightarrow> if c = 46 \<and> digits r \<noteq> [] then c # digits r else [])"

definition exp_part :: "pystr \<Rightarrow> pystr" where
  "exp_part s =
     (case s of [] \<Rightarrow> []
      | c # r \<Rightarrow>
          if c = 101 \<or> c = 69 then
            (case r of [] \<Rightarrow> []
             | d # r' \<Rightarrow>
                 if (d = 45 \<or> d = 43) \<and> digits r' \<noteq> [] then c # d # digits r'
                 else if digits r \<noteq> [] then c # digits r
                 else [])
          else [])"

definition json_number :: "pystr \<Rightarrow> (pystr \<times> bool) option" where
  "json_number s =
     (let sign = (if take 1 s = [45] then [45] else []) in
      case int_part (drop (length sign) s) of None \<Rightarrow> None
      | Some i \<Rightarrow>
          let f = frac_part (drop (length sign + length i) s);
              e = exp_part (drop (length sign + length i + length f) s)
          in Some (sign @ i @ f @ e, f \<noteq> [] \<or> e \<noteq> []))"

definition is_json_space :: "nat \<Rightarrow> bool" where
  "is_json_space c \<longleftrightarrow> c = 32 \<or> c = 9 \<or> c = 10 \<or> c = 13"

definition words :: "(string \<times> json) list" where
  "words =
     [(''null'', JNull), (''true'', JBool True), (''false'', JBool False),
      (''NaN'', JNum (str ''NaN'')), (''Infinity'', JNum (str ''Infinity'')),
      (''-Infinity'', JNum (str ''-Infinity''))]"

definition json_word :: "pystr \<Rightarrow> (nat \<times> json) option" where
  "json_word s =
     (case filter (\<lambda>(w, v). take (length w) s = str w) words of
        [] \<Rightarrow> None
      | (w, v) # ws \<Rightarrow> Some (length w, v))"

definition punctuation :: "nat \<Rightarrow> jtoken option" where
  "punctuation c =
     (if c = 123 then Some TLBrace else if c = 125 then Some TRBrace
      else if c = 91 then Some TLBracket else if c = 93 then Some TRBracket
      else if c = 58 then Some TColon else if c = 44 then Some TComma
      else None)"

text \<open>One token at the beginning of a non-empty input, and its length.\<close>

definition next_token :: "nat \<Rightarrow> pystr \<Rightarrow> jtoken \<times> nat" where
  "next_token c s =
     (case punctuation c of Some tok \<Rightarrow> (tok, 1)
      | None \<Rightarrow>
          if c = 34 then
            (case json_string [] s of None \<Rightarrow> (TBad, 1)
             | Some (txt, rest) \<Rightarrow> (TString txt, Suc (length s - length rest)))
          else
            (case json_word (c # s) of Some (n, v) \<Rightarrow> (TWord v, n)
             | None \<Rightarrow>
                 (case json_number (c # s) of None \<Rightarrow> (TBad, 1)
                  | Some (l, fl) \<Rightarrow> (TNumber l fl, length l))))"

function tokens :: "pystr \<Rightarrow> jtoken list" where
  "tokens [] = []"
| "tokens (c # s) =
     (if is_json_space c then tokens s
      else (case next_token c s of
              (TBad, n) \<Rightarrow> [TBad]
            | (tok, n) \<Rightarrow> tok # tokens (drop (n - 1) s)))"
  by pat_completeness auto
termination
  by (relation "measure length") auto


text \<open>
  The decoder reads the tokens from the left.  \<open>frames\<close> are the arrays and objects that
  are open, the innermost first: an array with its elements so far, an object with its
  members so far and the key that waits for its value.
\<close>

datatype frame = FArr "json list" | FObj "(pystr \<times> json) list" "pystr option"

datatype expect =
    EValue
  | EArrStart
  | EObjStart
  | EKey
  | EColon
  | EAfter
  | EEnd json

text \<open>A finished value goes into the innermost open container or is the result.\<close>

fun complete :: "json \<Rightarrow> frame list \<Rightarrow> json_error + (frame list \<times> expect)" where
  "complete v [] = Inr ([], EEnd v)"
| "complete v (FArr vs # fs) = Inr (FArr (vs @ [v]) # fs, EAfter)"
| "complete v (FObj ms (Some k) # fs) = Inr (FObj (ms @ [(k, v)]) None # fs, EAfter)"
| "complete v (FObj ms None # fs) = Inl JSONDecodeError"

text \<open>A token where a value is expected.\<close>

fun start_value :: "jtoken \<Rightarrow> frame list \<Rightarrow> json_error + (frame list \<times> expect)" where
  "start_value (TString s) fs = complete (JStr s) fs"
| "start_value (TNumber l fl) fs =
     (if \<not> fl \<and> length (filter is_digit l) > 4300 then Inl ValueError else complete (JNum l) fs)"
| "start_value (TWord v) fs = complete v fs"
| "start_value TLBracket fs = Inr (FArr [] # fs, EArrStart)"
| "start_value TLBrace fs = Inr (FObj [] None # fs, EObjStart)"
| "start_value tok fs = Inl JSONDecodeError"

fun set_key :: "jtoken \<Rightarrow> frame list \<Rightarrow> json_error + (frame list \<times> expect)" where
  "set_key (TString k) (FObj ms None # fs) = Inr (FObj ms (Some k) # fs, EColon)"
| "set_key tok fs = Inl JSONDecodeError"

fun after_value :: "jtoken \<Rightarrow> frame list \<Rightarrow> json_error + (frame list \<times> expect)" where
  "after_value TComma (FArr vs # fs) = Inr (FArr vs # fs, EValue)"
| "after_value TRBracket (FArr vs # fs) = complete (JArr vs) fs"
| "after_value TComma (FObj ms None # fs) = Inr (FObj ms None # fs, EKey)"
| "after_value TRBrace (FObj ms None # fs) = complete (JObj ms) fs"
| "after_value tok fs = Inl JSONDecodeError"

fun decode_step :: "frame list \<times> expect \<Rightarrow> jtoken \<Rightarrow> json_error + (frame list \<times> expect)" where
  "decode_step (fs, EValue) tok = start_value tok fs"
| "decode_step (fs, EArrStart) tok =
     (if tok = TRBracket then complete (JArr []) (tl fs) else start_value tok fs)"
| "decode_step (fs, EObjStart) tok =
     (if tok = TRBrace then complete (JObj []) (tl fs) else set_key tok fs)"
| "decode_step (fs, EKey) tok = set_key tok fs"
| "decode_step (fs, EColon) tok = (if tok = TColon then Inr (fs, EValue) else Inl JSONDecodeError)"
| "decode_step (fs, EAfter) tok = after_value tok fs"
| "decode_step (fs, EEnd v) tok = Inl JSONDecodeError"

fun decode :: "frame list \<times> expect \<Rightarrow> jtoken list \<Rightarrow> json_error + json" where
  "decode (fs, e) [] = (case e of EEnd v \<Rightarrow> Inr v | _ \<Rightarrow> Inl JSONDecodeError)"
| "decode st (tok # toks) =
     (case decode_step st tok of Inl err \<Rightarrow> Inl err | Inr st' \<Rightarrow> decode st' toks)"

definition json_loads :: "pystr \<Rightarrow> json_error + json" where
  "json_loads s = decode ([], EValue) (tokens s)"

subsection \<open>Structured data\<close>

text \<open>
  \<^verbatim>\<open><script[^>]*type="application/ld\+json"[^>]*>(.*?)</script>\<close> under \<open>re.DOTALL\<close>.
\<close>

definition json_ld_pattern :: "rx list" where
  \<open>json_ld_pattern =
     lit ''<script'' @ [not_gt] @ lit ''type="application/ld+json"'' @ [not_gt] @ lit ''>'' @
     [GOpen, Lazy DotAll, GClose] @ lit ''</script>''\<close>

text \<open>What the body of the loop of \<open>_extract_json_ld\<close> appends for a decoded value.\<close>

definition ld_fields :: "json \<Rightarrow> pyval list" where
  "ld_fields data =
     (case data of
        JObj d \<Rightarrow>
          (case dict_get d (str ''description'') of None \<Rightarrow> [] | Some v \<Rightarrow> [v]) @
          (case dict_get d (str ''abstract'') of None \<Rightarrow> [] | Some v \<Rightarrow> [v]) @
          (case dict_get d (str ''author'') of
             Some (JObj a) \<Rightarrow>
               (case dict_get a (str ''description'') of None \<Rightarrow> [] | Some v \<Rightarrow> [v])
           | _ \<Rightarrow> [])
      | _ \<Rightarrow> [])"

text \<open>
  The loop over the blocks.  \<open>JSONDecodeError\<close> is caught in the loop, which goes on
  with the next block; any other exception leaves the loop.
\<close>

fun ld_loop :: "pyval list \<Rightarrow> pystr list \<Rightarrow> json_error + pyval list" where
  "ld_loop abstracts [] = Inr abstracts"
| "ld_loop abstracts (m # ms) =
     (case json_loads m of
        Inl JSONDecodeError \<Rightarrow> ld_loop abstracts ms
      | Inl err \<Rightarrow> Inl err
      | Inr data \<Rightarrow> ld_loop (abstracts @ ld_fields data) ms)"

text \<open>\<open>_extract_json_ld\<close>: the outer handler turns every exception into the empty list.\<close>

definition extract_json_ld :: "pystr \<Rightarrow> pyval list" where
  "extract_json_ld html_content =
     (case ld_loop [] (re_findall_group json_ld_pattern html_content) of
        Inl err \<Rightarrow> []
      | Inr abstracts \<Rightarrow> abstracts)"


section \<open>Normalizer\<close>

text \<open>The entity table of \<open>_clean_html\<close>, in the order of the dictionary.\<close>

definition html_entities :: "(pystr \<times> pystr) list" where
  \<open>html_entities =
    [(str ''&nbsp;'', str '' ''), (str ''&amp;'', str ''&''), (str ''&lt;'', str ''<''),
     (str ''&gt;'', str ''>''), (str ''&quot;'', str ''"''), (str ''&#39;'', [39]),
     (str ''&apos;'', [39]), (str ''&mdash;'', [8212]), (str ''&ndash;'', [8211]),
     (str ''&ldquo;'', str ''"''), (str ''&rdquo;'', str ''"''), (str ''&lsquo;'', [39]),
     (str ''&rsquo;'', [39]), (str ''&hellip;'', [8230]), (str ''&deg;'', [176]),
     (str ''&copy;'', [169])]\<close>

definition decode_entities :: "pystr \<Rightarrow> pystr" where
  "decode_entities text = foldl (\<lambda>t (entity, char). py_replace entity char t) text html_entities"

text \<open>
  The patterns of \<open>_clean_html\<close>:
  \<^verbatim>\<open><script[^>]*>.*?</script>\<close>, \<^verbatim>\<open><style[^>]*>.*?</style>\<close> and
  \<^verbatim>\<open><(noscript|iframe|embed)[^>]*>.*?</\1>\<close> under \<open>re.DOTALL | re.IGNORECASE\<close>,
  \<^verbatim>\<open><!--.*?-->\<close> under \<open>re.DOTALL\<close>, \<^verbatim>\<open><[^>]+>\<close>, \<^verbatim>\<open>&#?\w+;\<close>, \<^verbatim>\<open>\s+\<close>,
  \<^verbatim>\<open>\s*Show More.*$\<close> under \<open>re.IGNORECASE\<close> and \<^verbatim>\<open>\s*\.\.\.$\<close>.
\<close>

definition block :: "string \<Rightarrow> rx list" where
  "block tag =
     ilit ''<'' @ ilit tag @ [not_gt] @ ilit ''>'' @ [Lazy DotAll] @ ilit ''</'' @ ilit tag @ ilit ''>''"

definition bloat :: "rx list" where
  "bloat =
     ilit ''<'' @ [GOpen, Alts [ilit ''noscript'', ilit ''iframe'', ilit ''embed''], GClose, not_gt] @
     ilit ''>'' @ [Lazy DotAll] @ ilit ''</'' @ [BackrefI] @ ilit ''>''"

definition comment :: "rx list" where
  "comment = lit ''<!--'' @ [Lazy DotAll] @ lit ''-->''"

definition tag :: "rx list" where
  "tag = [One (Lit 60), Plus (Neg 62), One (Lit 62)]"

definition entity :: "rx list" where
  "entity = [One (Lit 38), Opt (Lit 35), Plus Word, One (Lit 59)]"

definition show_more :: "rx list" where
  "show_more = [Star Space] @ ilit ''Show More'' @ [Star Dot, Eos]"

definition ellipsis :: "rx list" where
  "ellipsis = [Star Space] @ lit ''...'' @ [Eos]"

text \<open>
  \<open>_clean_html\<close> on a \<open>str\<close>, statement after statement.
\<close>

definition clean_html :: "pystr \<Rightarrow> pystr" where
  "clean_html text =
     (let text = re_sub (block ''script'') [] text;
          text = re_sub (block ''style'') [] text;
          text = re_sub bloat [] text;
          text = re_sub comment [] text;
          text = re_sub tag [] text;
          text = decode_entities text;
          text = re_sub entity [] text;
          text = re_sub [Plus Space] (str '' '') text;
          text = py_strip text;
          text = re_sub show_more [] text;
          text = re_sub ellipsis [] text
      in text)"

section \<open>Quality filter, deduplicator and selector\<close>

record config =
  min_length :: int
  max_length :: int
  verbose :: bool

datatype error = TypeError

text \<open>
  \<open>_clean_html\<close> on a candidate: its first \<open>re.sub\<close> raises \<open>TypeError\<close> on a value
  that is not a \<open>str\<close>.
\<close>

definition clean_candidate :: "pyval \<Rightarrow> error + pystr" where
  "clean_candidate abstract = (case abstract of JStr text \<Rightarrow> Inr (clean_html text) | _ \<Rightarrow> Inl TypeError)"

text \<open>The measures of \<open>_filter_quality_abstracts\<close>.\<close>

definition word_count :: "pystr \<Rightarrow> nat" where
  "word_count s = length (py_split s)"

text \<open>\<^verbatim>\<open>re.split(r'[.!?]+', cleaned)\<close>\<close>

definition sentences :: "pystr \<Rightarrow> pystr list" where
  "sentences s = re_split [Plus (OneOf [46, 33, 63])] s"

definition long_sentences :: "pystr \<Rightarrow> nat" where
  "long_sentences s = length (filter (\<lambda>x. word_count x > 3) (sentences s))"

text \<open>
  The ratio is a quotient of two lengths, compared with \<open>0.4\<close>.  Python computes it in
  binary floating point; on a text of fewer than \<open>10\<^sup>1\<^sup>5\<close> code points the comparison has
  the outcome of the exact one.
\<close>

definition uppercase_ratio :: "pystr \<Rightarrow> real" where
  "uppercase_ratio s = (if s \<noteq> [] then real (length (filter is_upper s)) / real (length s) else 0)"

fun filter_loop :: "config \<Rightarrow> pystr list \<Rightarrow> pyval list \<Rightarrow> error + pystr list" where
  "filter_loop cfg filtered [] = Inr filtered"
| "filter_loop cfg filtered (abstract # abstracts) =
     (case clean_candidate abstract of
        Inl err \<Rightarrow> Inl err
      | Inr cleaned \<Rightarrow>
          if int (length cleaned) < min_length cfg \<or> int (length cleaned) > max_length cfg
          then filter_loop cfg filtered abstracts
          else if word_count cleaned < 10 \<or> word_count cleaned > 1000
          then filter_loop cfg filtered abstracts
          else if long_sentences cleaned < 2
          then filter_loop cfg filtered abstracts
          else if uppercase_ratio cleaned > 0.4
          then filter_loop cfg filtered abstracts
          else filter_loop cfg (filtered @ [cleaned]) abstracts)"

definition filter_quality_abstracts :: "config \<Rightarrow> pyval list \<Rightarrow> error + pystr list" where
  "filter_quality_abstracts cfg abstracts = filter_loop cfg [] abstracts"

text \<open>\<open>_remove_duplicates\<close>, with its list \<open>unique_abstracts\<close> and its set \<open>seen_lengths\<close>.\<close>

fun dedup_loop :: "pystr list \<Rightarrow> nat set \<Rightarrow> pystr list \<Rightarrow> pystr list" where
  "dedup_loop unique_abstracts seen_lengths [] = unique_abstracts"
| "dedup_loop unique_abstracts seen_lengths (abstract # abstracts) =
     (if \<exists>seen_len \<in> seen_lengths. \<bar>int (length abstract) - int seen_len\<bar> < 50
      then dedup_loop unique_abstracts seen_lengths abstracts
      else if abstract \<in> set unique_abstracts
      then dedup_loop unique_abstracts seen_lengths abstracts
      else dedup_loop (unique_abstracts @ [abstract]) (insert (length abstract) seen_lengths) abstracts)"

definition remove_duplicates :: "pystr list \<Rightarrow> pystr list" where
  "remove_duplicates abstracts = dedup_loop [] {} abstracts"

text \<open>\<open>max(xs, key=len)\<close> on a non-empty list: the first of the longest elements.\<close>

fun max_from :: "pystr \<Rightarrow> pystr list \<Rightarrow> pystr" where
  "max_from best [] = best"
| "max_from best (x # xs) = (if length x > length best then max_from x xs else max_from best xs)"

text \<open>
  \<open>xs.sort(key=len, reverse=True)\<close>: the sort is stable, and elements of equal length
  keep their order under \<open>reverse\<close>.
\<close>

definition sort_longest_first :: "pystr list \<Rightarrow> pystr list" where
  "sort_longest_first xs = rev (sort_key length (rev xs))"

section \<open>The three modes\<close>

text \<open>The candidate pool that \<open>extract\<close> and \<open>extract_all\<close> build.\<close>

definition candidates :: "pystr \<Rightarrow> pyval list" where
  "candidates html_content =
     map JStr (extract_patterns html_content) @ extract_json_ld html_content @
     map JStr (extract_meta_tags html_content)"

text \<open>The lines that \<open>extract\<close> prints when \<open>verbose\<close> is set.\<close>

datatype message =
    NoCandidates
  | Found nat
  | NoValid
  | BestSelected nat nat

definition say :: "config \<Rightarrow> message \<Rightarrow> message list" where
  "say cfg m = (if verbose cfg then [m] else [])"

text \<open>
  \<open>extract\<close> (written \<open>extract'\<close>, the plain name being a keyword): the printed lines, and
  the exception raised or the value returned.
\<close>

definition extract' :: "config \<Rightarrow> pystr \<Rightarrow> message list \<times> (error + pystr option)" where
  "extract' cfg html_content =
     (let all_abstracts = candidates html_content in
      if all_abstracts = [] then (say cfg NoCandidates, Inr None)
      else
        let out = say cfg (Found (length all_abstracts)) in
        case filter_quality_abstracts cfg all_abstracts of
          Inl err \<Rightarrow> (out, Inl err)
        | Inr filtered \<Rightarrow>
            if filtered = [] then (out @ say cfg NoValid, Inr None)
            else
              (case remove_duplicates filtered of
                 [] \<Rightarrow> (out, Inr None)
               | u # us \<Rightarrow>
                   let best_abstract = max_from u us
                   in (out @ say cfg (BestSelected (length best_abstract) (word_count best_abstract)),
                       Inr (Some best_abstract))))"

definition extract_all :: "config \<Rightarrow> pystr \<Rightarrow> error + pystr list" where
  "extract_all cfg html_content =
     (let all_abstracts = candidates html_content in
      if all_abstracts = [] then Inr []
      else
        case filter_quality_abstracts cfg all_abstracts of
          Inl err \<Rightarrow> Inl err
        | Inr filtered \<Rightarrow> Inr (sort_longest_first (remove_duplicates filtered)))"

record metadata =
  abstract :: pystr
  length_chars :: nat
  words_count :: nat
  sentence_count :: nat
  has_numbers :: bool

text \<open>
  \<open>extract_with_metadata\<close>: \<open>not abstract\<close> holds for \<open>None\<close> and for the empty text.
\<close>

definition extract_with_metadata :: "config \<Rightarrow> pystr \<Rightarrow> message list \<times> (error + metadata option)" where
  "extract_with_metadata cfg html_content =
     (case extract' cfg html_content of
        (out, Inl err) \<Rightarrow> (out, Inl err)
      | (out, Inr None) \<Rightarrow> (out, Inr None)
      | (out, Inr (Some found)) \<Rightarrow>
          if found = [] then (out, Inr None)
          else
            (out,
             Inr (Some \<lparr>abstract = found,
                        length_chars = length found,
                        words_count = length (py_split found),
                        sentence_count = length (sentences found),
                        has_numbers = (re_search [One Digit] found \<noteq> None)\<rparr>)))"


section \<open>Specification-side notions\<close>

text \<open>
  The deduplication algorithm in the words of the specification: the input is read in
  its order; a text is skipped if an accepted text has a length within 50 of its own
  (a difference smaller than 50), and accepted otherwise.
\<close>

fun dedup_spec :: "pystr list \<Rightarrow> pystr list \<Rightarrow> pystr list" where
  "dedup_spec accepted [] = accepted"
| "dedup_spec accepted (x # xs) =
     (if \<exists>a \<in> set accepted. \<bar>int (length x) - int (length a)\<bar> < 50
      then dedup_spec accepted xs
      else dedup_spec (accepted @ [x]) xs)"

text \<open>Two texts are near-duplicates when their lengths differ by less than 50.\<close>

definition near :: "pystr \<Rightarrow> pystr \<Rightarrow> bool" where
  "near a b \<longleftrightarrow> \<bar>int (length a) - int (length b)\<bar> < 50"

text \<open>No two entries of a result are equal or near-duplicates.\<close>

definition far_apart :: "pystr list \<Rightarrow> bool" where
  "far_apart ts \<longleftrightarrow> distinct ts \<and> (\<forall>a \<in> set ts. \<forall>b \<in> set ts. a \<noteq> b \<longrightarrow> \<not> near a b)"

text \<open>The texts that survive filtering and deduplication, in generation order.\<close>

definition survivors :: "config \<Rightarrow> pystr \<Rightarrow> error + pystr list" where
  "survivors cfg html_content =
     (case filter_quality_abstracts cfg (candidates html_content) of
        Inl err \<Rightarrow> Inl err
      | Inr filtered \<Rightarrow> Inr (remove_duplicates filtered))"


text \<open>
  Three documents for the concrete checks below: one block of markup around a short text of
  ten words in three sentences, structured data whose description is a number, and the
  empty document.
\<close>

definition example_html :: pystr where
  \<open>example_html = str ''<div class="abstract">a b c d. e f g h. i j</div>''\<close>

definition example_text :: pystr where
  "example_text = str ''a b c d. e f g h. i j''"

definition number_html :: pystr where
  \<open>number_html = str ''<script type="application/ld+json">{"description": 1}</script>''\<close>

declare rx_scan.simps [simp del] py_replace.simps [simp del] json_string.simps [simp del]
  tokens.simps [simp del]

section \<open>Deduplication\<close>

lemma dedup_loop_spec:
  "seen = length ` set u \<Longrightarrow> dedup_loop u seen xs = dedup_spec u xs"
proof (induction xs arbitrary: u seen)
  case Nil
  then show ?case by simp
next
  case (Cons x xs)
  have dup: "x \<in> set u \<Longrightarrow> \<exists>a \<in> set u. \<bar>int (length x) - int (length a)\<bar> < 50"
    by (rule bexI [of _ x]) simp_all
  have step: "insert (length x) seen = length ` set (u @ [x])"
    using Cons.prems by auto
  show ?case
    using Cons.prems dup Cons.IH [OF Cons.prems] Cons.IH [OF step]
    by auto
qed

lemma dedup_spec_subseq: "\<exists>zs. dedup_spec u xs = u @ zs \<and> subseq zs xs"
proof (induction xs arbitrary: u)
  case Nil
  then show ?case by simp
next
  case (Cons x xs)
  show ?case
  proof (cases "\<exists>a \<in> set u. \<bar>int (length x) - int (length a)\<bar> < 50")
    case True
    with Cons.IH [of u] show ?thesis by (auto intro: subseq_Cons')
  next
    case False
    from Cons.IH [of "u @ [x]"] obtain zs where "dedup_spec (u @ [x]) xs = (u @ [x]) @ zs" "subseq zs xs"
      by blast
    with False show ?thesis by (auto intro!: exI [of _ "x # zs"])
  qed
qed

lemma dedup_spec_far: "far_apart u \<Longrightarrow> far_apart (dedup_spec u xs)"
proof (induction xs arbitrary: u)
  case Nil
  then show ?case by simp
next
  case (Cons x xs)
  show ?case
  proof (cases "\<exists>a \<in> set u. \<bar>int (length x) - int (length a)\<bar> < 50")
    case True
    with Cons show ?thesis by simp
  next
    case False
    then have "x \<notin> set u" by force
    with False Cons.prems have "far_apart (u @ [x])"
      unfolding far_apart_def near_def by (auto simp: abs_minus_commute)
    with False Cons.IH show ?thesis by simp
  qed
qed

lemma dedup_spec_keeps: "set u \<subseteq> set (dedup_spec u xs)"
  using dedup_spec_subseq [of u xs] by auto

lemma dedup_spec_repr:
  "i < length xs \<Longrightarrow> \<exists>a \<in> set (dedup_spec u xs). near (xs ! i) a \<and> (a \<in> set u \<or> a \<in> set (take (Suc i) xs))"
proof (induction xs arbitrary: u i)
  case Nil
  then show ?case by simp
next
  case (Cons x xs)
  show ?case
  proof (cases i)
    case 0
    show ?thesis
    proof (cases "\<exists>a \<in> set u. \<bar>int (length x) - int (length a)\<bar> < 50")
      case True
      then obtain a where a: "a \<in> set u" "near x a" unfolding near_def by blast
      then have "a \<in> set (dedup_spec u xs)" using dedup_spec_keeps [of u xs] by blast
      moreover have "dedup_spec u (x # xs) = dedup_spec u xs" using True by simp
      ultimately show ?thesis using a 0 by auto
    next
      case False
      have "x \<in> set (dedup_spec (u @ [x]) xs)"
        using dedup_spec_keeps [of "u @ [x]" xs] by auto
      moreover have "near x x" by (simp add: near_def)
      ultimately show ?thesis using False 0 by (auto intro!: bexI [of _ x])
    qed
  next
    case (Suc k)
    with Cons.prems have k: "k < length xs" by simp
    show ?thesis
    proof (cases "\<exists>a \<in> set u. \<bar>int (length x) - int (length a)\<bar> < 50")
      case True
      with Cons.IH [OF k, of u] Suc show ?thesis by auto
    next
      case False
      with Cons.IH [OF k, of "u @ [x]"] Suc show ?thesis by auto
    qed
  qed
qed


section \<open>Filtering, selection and ranking\<close>


lemma filter_loop_config:
  "min_length cfg = min_length cfg' \<Longrightarrow> max_length cfg = max_length cfg' \<Longrightarrow>
   filter_loop cfg acc cs = filter_loop cfg' acc cs"
  by (induction cs arbitrary: acc) (simp_all split: sum.splits)

lemma filter_loop_nil: "filter_loop cfg acc [] = Inr acc"
  by simp


lemma remove_duplicates_spec: "remove_duplicates xs = dedup_spec [] xs"
  by (simp add: remove_duplicates_def dedup_loop_spec)

lemma remove_duplicates_subseq: "subseq (remove_duplicates xs) xs"
  using dedup_spec_subseq [of "[]" xs] by (auto simp: remove_duplicates_spec)


lemma remove_duplicates_far: "far_apart (remove_duplicates xs)"
  using dedup_spec_far [of "[]" xs] by (simp add: remove_duplicates_spec far_apart_def)

lemma remove_duplicates_nonempty: "xs \<noteq> [] \<Longrightarrow> remove_duplicates xs \<noteq> []"
  using dedup_spec_keeps [of "[hd xs]" "tl xs"]
  by (cases xs) (auto simp: remove_duplicates_spec)

lemma max_from_first:
  assumes "i < length pre" and "b = pre ! i"
    and "\<forall>j < length pre. length (pre ! j) \<le> length b"
    and "\<forall>j < i. length (pre ! j) < length b"
  shows "\<exists>k < length (pre @ xs). max_from b xs = (pre @ xs) ! k \<and>
           (\<forall>j < length (pre @ xs). length ((pre @ xs) ! j) \<le> length (max_from b xs)) \<and>
           (\<forall>j < k. length ((pre @ xs) ! j) < length (max_from b xs))"
  using assms
proof (induction xs arbitrary: pre b i)
  case Nil
  then show ?case by auto
next
  case (Cons x xs)
  show ?case
  proof (cases "length x > length b")
    case True
    have "\<exists>k < length ((pre @ [x]) @ xs). max_from x xs = ((pre @ [x]) @ xs) ! k \<and>
           (\<forall>j < length ((pre @ [x]) @ xs). length (((pre @ [x]) @ xs) ! j) \<le> length (max_from x xs)) \<and>
           (\<forall>j < k. length (((pre @ [x]) @ xs) ! j) < length (max_from x xs))"
    proof (rule Cons.IH [of "length pre"])
      show "length pre < length (pre @ [x])" by simp
      show "x = (pre @ [x]) ! length pre" by simp
      have below: "length (pre ! j) \<le> length b" if "j < length pre" for j
        using Cons.prems(3) that by simp
      show "\<forall>j < length (pre @ [x]). length ((pre @ [x]) ! j) \<le> length x"
        using below True by (auto simp: nth_append less_Suc_eq intro: order_trans less_imp_le)
      show "\<forall>j < length pre. length ((pre @ [x]) ! j) < length x"
        using below True by (auto simp: nth_append intro: le_less_trans)
    qed
    with True show ?thesis by simp
  next
    case False
    have "\<exists>k < length ((pre @ [x]) @ xs). max_from b xs = ((pre @ [x]) @ xs) ! k \<and>
           (\<forall>j < length ((pre @ [x]) @ xs). length (((pre @ [x]) @ xs) ! j) \<le> length (max_from b xs)) \<and>
           (\<forall>j < k. length (((pre @ [x]) @ xs) ! j) < length (max_from b xs))"
    proof (rule Cons.IH [of i])
      show "i < length (pre @ [x])" using Cons.prems(1) by simp
      show "b = (pre @ [x]) ! i" using Cons.prems(1,2) by (simp add: nth_append)
      show "\<forall>j < length (pre @ [x]). length ((pre @ [x]) ! j) \<le> length b"
        using Cons.prems(3) False by (auto simp: nth_append less_Suc_eq)
      show "\<forall>j < i. length ((pre @ [x]) ! j) < length b"
        using Cons.prems(1,4) by (auto simp: nth_append)
    qed
    with False show ?thesis by simp
  qed
qed

lemma max_from_spec:
  "\<exists>k < length (u # us). max_from u us = (u # us) ! k \<and>
     (\<forall>j < length (u # us). length ((u # us) ! j) \<le> length (max_from u us)) \<and>
     (\<forall>j < k. length ((u # us) ! j) < length (max_from u us))"
  using max_from_first [of 0 "[u]" u us] by simp

lemma sort_longest_first_mset: "mset (sort_longest_first xs) = mset xs"
  by (simp add: sort_longest_first_def)

lemma sort_longest_first_sorted:
  "sorted_wrt (\<lambda>a b. length a \<ge> length b) (sort_longest_first xs)"
proof -
  have "sorted_wrt (\<lambda>a b. length a \<le> length b) (sort_key length (rev xs))"
    using sorted_sort_key [of length "rev xs"] by (simp add: sorted_map)
  then show ?thesis
    by (simp add: sort_longest_first_def sorted_wrt_rev)
qed


lemma filter_loop_order:
  "filter_loop cfg acc cs = Inr ts \<Longrightarrow> \<exists>zs. ts = acc @ zs \<and> subseq (map Inr zs) (map clean_candidate cs)"
proof (induction cs arbitrary: acc)
  case Nil
  then show ?case by simp
next
  case (Cons c cs)
  show ?case
  proof (cases "clean_candidate c")
    case (Inl e)
    with Cons.prems show ?thesis by simp
  next
    case (Inr cleaned)
    show ?thesis
    proof (cases "filter_loop cfg acc (c # cs) = filter_loop cfg acc cs")
      case True
      with Cons.prems Cons.IH [of acc] obtain zs where "ts = acc @ zs" "subseq (map Inr zs) (map clean_candidate cs)"
        by auto
      then show ?thesis by (auto intro: list_emb_Cons)
    next
      case False
      then have "filter_loop cfg acc (c # cs) = filter_loop cfg (acc @ [cleaned]) cs"
        using Inr by (simp split: if_splits)
      with Cons.prems Cons.IH [of "acc @ [cleaned]"]
      obtain zs where "ts = (acc @ [cleaned]) @ zs" "subseq (map Inr zs) (map clean_candidate cs)"
        by auto
      then show ?thesis using Inr by (auto intro!: exI [of _ "cleaned # zs"])
    qed
  qed
qed

lemma survivors_nil: "candidates h = [] \<Longrightarrow> survivors cfg h = Inr []"
  by (simp add: survivors_def filter_quality_abstracts_def remove_duplicates_def)

lemma extract_all_survivors:
  "extract_all cfg h = (case survivors cfg h of Inl e \<Rightarrow> Inl e | Inr us \<Rightarrow> Inr (sort_longest_first us))"
  by (auto simp: extract_all_def survivors_def Let_def filter_quality_abstracts_def
        remove_duplicates_def sort_longest_first_def split: sum.splits)

lemma extract_survivors:
  "snd (extract' cfg h) =
     (case survivors cfg h of Inl e \<Rightarrow> Inl e | Inr [] \<Rightarrow> Inr None | Inr (u # us) \<Rightarrow> Inr (Some (max_from u us)))"
  by (auto simp: extract'_def survivors_def Let_def filter_quality_abstracts_def
        remove_duplicates_def split: sum.splits list.splits)


lemma survivors_far: "survivors cfg h = Inr us \<Longrightarrow> far_apart us"
  using remove_duplicates_far by (auto simp: survivors_def split: sum.splits)

lemma survivors_config:
  "min_length cfg = min_length cfg' \<Longrightarrow> max_length cfg = max_length cfg' \<Longrightarrow>
   survivors cfg h = survivors cfg' h"
  using filter_loop_config [of cfg cfg' "[]" "candidates h"]
  by (simp add: survivors_def filter_quality_abstracts_def)





lemma max_from_mem: "max_from u us \<in> set (u # us)"
  using max_from_spec [of u us] by (metis nth_mem)

lemma max_from_longest: "x \<in> set (u # us) \<Longrightarrow> length x \<le> length (max_from u us)"
  using max_from_spec [of u us] by (metis in_set_conv_nth)

lemma sort_longest_first_nil: "sort_longest_first xs = [] \<longleftrightarrow> xs = []"
  using length_sort [of length "rev xs"] by (auto simp: sort_longest_first_def simp del: length_sort)

lemma sort_longest_first_set: "set (sort_longest_first xs) = set xs"
  by (simp add: sort_longest_first_def)

lemma sort_longest_first_hd:
  "sort_longest_first xs = y # ys \<Longrightarrow> x \<in> set xs \<Longrightarrow> length x \<le> length y"
  using sort_longest_first_sorted [of xs] sort_longest_first_set [of xs]
  by (cases "x = y") auto

lemma far_apart_longest:
  assumes "far_apart xs" and "a \<in> set xs" and "b \<in> set xs"
    and "\<forall>x \<in> set xs. length x \<le> length a" and "\<forall>x \<in> set xs. length x \<le> length b"
  shows "a = b"
proof (rule ccontr)
  assume "a \<noteq> b"
  with assms(1-3) have "\<not> near a b" by (auto simp: far_apart_def)
  moreover from assms have "length a = length b" by (simp add: le_antisym)
  ultimately show False by (simp add: near_def)
qed


lemma remove_duplicates_repr:
  "i < length xs \<Longrightarrow> \<exists>j \<le> i. xs ! j \<in> set (remove_duplicates xs) \<and> near (xs ! i) (xs ! j)"
proof -
  assume i: "i < length xs"
  from dedup_spec_repr [OF i, of "[]"]
  obtain a where a: "a \<in> set (dedup_spec [] xs)" "near (xs ! i) a" "a \<in> set (take (Suc i) xs)"
    by auto
  from a(3) obtain j where "j < Suc i" "a = xs ! j"
    by (auto simp: in_set_conv_nth)
  with a show ?thesis
    by (auto simp: remove_duplicates_spec intro!: exI [of _ j])
qed

section \<open>Concrete documents\<close>

lemmas eval_defs = str_def lit_def ilit_def not_gt_def not_quote_def container_def attr_has_def
  attr_is_def heading_def abstract_heading_def summary_heading_def re_findall_def sre_lower_def
  is_upper_def is_digit_def is_space_def is_word_def rx_scan.simps re_findall_group_def
  re_search_def search_group_def group1_def meta_pattern_def json_ld_pattern_def re_sub_def
  re_split_def

lemmas clean_defs = block_def bloat_def comment_def tag_def entity_def show_more_def ellipsis_def
  decode_entities_def html_entities_def py_replace.simps py_strip_def

lemmas json_defs = json_loads_def tokens.simps next_token_def punctuation_def json_string.simps
  json_word_def words_def json_number_def int_part_def frac_part_def exp_part_def digits_def
  is_json_space_def simple_escape_def uescape_def hex4_def is_hex_def hex_val_def ld_fields_def
  dict_get_def

lemma example_patterns: "extract_patterns example_html = [example_html, example_html]"
  by (simp add: eval_defs extract_patterns_def patterns_def example_html_def)

lemma example_json_ld: "extract_json_ld example_html = []"
  by (simp add: eval_defs extract_json_ld_def example_html_def)

lemma example_meta_tags: "extract_meta_tags example_html = []"
  by (simp add: eval_defs extract_meta_tags_def example_html_def)

lemma example_candidates: "candidates example_html = [JStr example_html, JStr example_html]"
  by (simp add: candidates_def example_patterns example_json_ld example_meta_tags)

lemma example_clean: "clean_html example_html = example_text"
  by (simp only: clean_html_def Let_def)
    (simp add: eval_defs clean_defs example_html_def example_text_def)

lemma example_length: "length example_text = 21"
  by (simp add: example_text_def str_def)

lemma example_words: "word_count example_text = 10"
  by (simp add: example_text_def str_def word_count_def py_split_def is_space_def)

lemma example_sentences: "long_sentences example_text = 2"
  by (simp add: eval_defs example_text_def long_sentences_def sentences_def word_count_def
        py_split_def)

lemma example_ratio: "uppercase_ratio example_text = 0"
  by (simp add: example_text_def str_def uppercase_ratio_def is_upper_def)



lemma example_filtered:
  "min_length cfg \<le> 21 \<Longrightarrow> 21 \<le> max_length cfg \<Longrightarrow>
   filter_quality_abstracts cfg (candidates example_html) = Inr [example_text, example_text]"
  by (simp add: example_candidates filter_quality_abstracts_def clean_candidate_def example_clean
        example_length example_words example_sentences example_ratio)

lemma example_survivors:
  "min_length cfg \<le> 21 \<Longrightarrow> 21 \<le> max_length cfg \<Longrightarrow>
   survivors cfg example_html = Inr [example_text]"
  by (simp add: survivors_def example_filtered remove_duplicates_spec near_def)

lemma empty_candidates: "candidates [] = []"
  by (simp add: eval_defs candidates_def extract_patterns_def patterns_def extract_json_ld_def
        extract_meta_tags_def)

lemma number_patterns: "extract_patterns number_html = []"
  by (simp add: eval_defs extract_patterns_def patterns_def number_html_def)

lemma number_json_ld: "extract_json_ld number_html = [JNum (str ''1'')]"
  by (simp add: eval_defs json_defs extract_json_ld_def number_html_def)

lemma number_meta_tags: "extract_meta_tags number_html = []"
  by (simp add: eval_defs extract_meta_tags_def number_html_def)

lemma number_candidates: "candidates number_html = [JNum (str ''1'')]"
  by (simp add: candidates_def number_patterns number_json_ld number_meta_tags)


lemma example_extract:
  "min_length cfg \<le> 21 \<Longrightarrow> 21 \<le> max_length cfg \<Longrightarrow>
   extract' cfg example_html =
     (say cfg (Found 2) @ say cfg (BestSelected 21 10), Inr (Some example_text))"
  using example_filtered [of cfg]
  by (simp add: extract'_def example_candidates remove_duplicates_spec near_def example_length
        example_words numeral_2_eq_2)


lemma empty_survivors: "survivors cfg [] = Inr []"
  by (simp add: survivors_nil empty_candidates)

lemma number_survivors: "survivors cfg number_html = Inl TypeError"
  by (simp add: survivors_def number_candidates filter_quality_abstracts_def clean_candidate_def)

lemma metadata_error:
  "snd (extract' cfg h) = Inl err \<Longrightarrow> snd (extract_with_metadata cfg h) = Inl err"
  by (cases "extract' cfg h") (simp add: extract_with_metadata_def)

lemma clean_entity_text: \<open>clean_html (str ''&lt;b&gt;'') = str ''<b>''\<close>
  by (simp only: clean_html_def Let_def) (simp add: eval_defs clean_defs)

lemma clean_tag_text: \<open>clean_html (str ''<b>'') = []\<close>
  by (simp only: clean_html_def Let_def) (simp add: eval_defs clean_defs)

section \<open>Claims\<close>

text \<open>
  The results of the three modes are values of a sum type: \<open>Inl\<close> is the exception that
  leaves the call, \<open>Inr\<close> the value returned.  A statement about what a mode returns is
  a statement about its \<open>Inr\<close> results.
\<close>



text \<open>
  Claim C2.  For every document and configuration, \<open>extract\<close> returns \<open>None\<close> exactly
  when no candidate survives filtering and deduplication; otherwise it returns a survivor
  of maximal length, the first of them in generation order.
\<close>

theorem extract_selects_first_longest:
  "(snd (extract' cfg html) = Inr None \<longleftrightarrow> survivors cfg html = Inr []) \<and>
   (survivors cfg html = Inr us \<and> us \<noteq> [] \<longrightarrow>
      (\<exists>k < length us.
          snd (extract' cfg html) = Inr (Some (us ! k)) \<and>
          (\<forall>j < length us. length (us ! j) \<le> length (us ! k)) \<and>
          (\<forall>j < k. length (us ! j) < length (us ! k))))"
proof (intro conjI impI)
  show "snd (extract' cfg html) = Inr None \<longleftrightarrow> survivors cfg html = Inr []"
    by (auto simp: extract_survivors split: sum.splits list.splits)
next
  assume "survivors cfg html = Inr us \<and> us \<noteq> []"
  then obtain u vs where us: "us = u # vs" and s: "survivors cfg html = Inr (u # vs)"
    by (cases us) auto
  from s have "snd (extract' cfg html) = Inr (Some (max_from u vs))"
    by (simp add: extract_survivors)
  with max_from_spec [of u vs] us
  show "\<exists>k < length us.
          snd (extract' cfg html) = Inr (Some (us ! k)) \<and>
          (\<forall>j < length us. length (us ! j) \<le> length (us ! k)) \<and>
          (\<forall>j < k. length (us ! j) < length (us ! k))"
    by auto
qed

theorem extract_selects_first_longest_witness:
  "survivors \<lparr>min_length = 0, max_length = 5000, verbose = False\<rparr> example_html = Inr [example_text] \<and>
   snd (extract' \<lparr>min_length = 0, max_length = 5000, verbose = False\<rparr> example_html) = Inr (Some example_text) \<and>
   survivors \<lparr>min_length = 0, max_length = 5000, verbose = False\<rparr> [] = Inr [] \<and> snd (extract' \<lparr>min_length = 0, max_length = 5000, verbose = False\<rparr> []) = Inr None"
proof -
  have s: "survivors \<lparr>min_length = 0, max_length = 5000, verbose = False\<rparr> example_html = Inr [example_text]"
    by (simp add: example_survivors)
  have e: "survivors \<lparr>min_length = 0, max_length = 5000, verbose = False\<rparr> [] = Inr []"
    by (rule empty_survivors)
  from extract_selects_first_longest [of "\<lparr>min_length = 0, max_length = 5000, verbose = False\<rparr>" example_html "[example_text]"] s
    extract_selects_first_longest [of "\<lparr>min_length = 0, max_length = 5000, verbose = False\<rparr>" "[]" "[]"] e
  show ?thesis by simp
qed

text \<open>
  Claim C4 (refuted on the code).  The claim says that no mode raises an exception.  A
  structured-data block whose \<open>description\<close> is not a text puts a value that is not a
  \<open>str\<close> into the candidate pool; \<open>_clean_html\<close> raises \<open>TypeError\<close> on it, outside
  every handler, and the exception leaves \<open>extract\<close>, \<open>extract_all\<close> and
  \<open>extract_with_metadata\<close>.
\<close>

theorem number_description_raises:
  "snd (extract' cfg number_html) = Inl TypeError \<and>
   extract_all cfg number_html = Inl TypeError \<and>
   snd (extract_with_metadata cfg number_html) = Inl TypeError"
  by (simp add: extract_survivors extract_all_survivors number_survivors metadata_error)

text \<open>
  Claim C5.  For every document and configuration, \<open>extract_all\<close> returns the survivors
  of filtering and deduplication, each once, sorted by descending length, and the empty
  list when there is no survivor.  Texts of lengths 200, 500 and 350 are ranked as
  500, 350, 200.
\<close>

theorem extract_all_ranks_survivors:
  "(survivors cfg html = Inr us \<longrightarrow>
      extract_all cfg html = Inr (sort_longest_first us) \<and>
      mset (sort_longest_first us) = mset us \<and>
      sorted_wrt (\<lambda>a b. length a \<ge> length b) (sort_longest_first us) \<and>
      (us = [] \<longrightarrow> extract_all cfg html = Inr [])) \<and>
   (extract_all cfg html = Inr ts \<longrightarrow> (\<exists>us. survivors cfg html = Inr us \<and> mset ts = mset us)) \<and>
   (map length vs = [200, 500, 350] \<longrightarrow> map length (sort_longest_first vs) = [500, 350, 200])"
proof -
  have sc: "map length (sort_longest_first vs) = [500, 350, 200]" if "map length vs = [200, 500, 350]"
  proof -
    from that obtain a b c where "vs = [a, b, c]" "length a = 200" "length b = 500" "length c = 350"
      by (auto simp: map_eq_Cons_conv)
    then show ?thesis by (simp add: sort_longest_first_def)
  qed
  have conv: "\<exists>us. survivors cfg html = Inr us \<and> mset ts = mset us" if "extract_all cfg html = Inr ts"
    using that by (auto simp: extract_all_survivors sort_longest_first_mset split: sum.splits)
  have nil: "sort_longest_first ([] :: pystr list) = []"
    by (simp add: sort_longest_first_nil)
  from sc conv nil show ?thesis
    by (auto simp: extract_all_survivors sort_longest_first_mset sort_longest_first_sorted)
qed

theorem extract_all_ranks_survivors_witness:
  "survivors \<lparr>min_length = 0, max_length = 5000, verbose = False\<rparr> example_html = Inr [example_text] \<and>
   extract_all \<lparr>min_length = 0, max_length = 5000, verbose = False\<rparr> example_html = Inr [example_text] \<and>
   survivors \<lparr>min_length = 0, max_length = 5000, verbose = False\<rparr> [] = Inr [] \<and> extract_all \<lparr>min_length = 0, max_length = 5000, verbose = False\<rparr> [] = Inr [] \<and>
   map length [replicate 200 (97::nat), replicate 500 98, replicate 350 99] = [200, 500, 350] \<and>
   map length (sort_longest_first [replicate 200 97, replicate 500 98, replicate 350 99])
     = [500, 350, 200]"
proof -
  have s: "survivors \<lparr>min_length = 0, max_length = 5000, verbose = False\<rparr> example_html = Inr [example_text]"
    by (simp add: example_survivors)
  have e: "survivors \<lparr>min_length = 0, max_length = 5000, verbose = False\<rparr> [] = Inr []"
    by (rule empty_survivors)
  have l: "map length [replicate 200 (97::nat), replicate 500 98, replicate 350 99] = [200, 500, 350]"
    by simp
  from extract_all_ranks_survivors [of "\<lparr>min_length = 0, max_length = 5000, verbose = False\<rparr>" example_html "[example_text]" "[example_text]"
      "[replicate 200 97, replicate 500 98, replicate 350 99]"] s l
    extract_all_ranks_survivors [of "\<lparr>min_length = 0, max_length = 5000, verbose = False\<rparr>" "[]" "[]" "[]" "[]"] e
  show ?thesis by (simp add: sort_longest_first_def)
qed

text \<open>
  Claim C6 (corrected).  For every list of texts, \<open>_remove_duplicates\<close> returns what the
  algorithm of the specification returns: it reads the list in its order, skips a text
  when an accepted text has a length within 50 of its own, and accepts it otherwise.  The
  claim concludes that the earliest of a group of near-duplicates is the one kept; that
  fails, because a text is compared with the accepted texts only: of the lengths 200, 160,
  120 the second is skipped for the first, and the third, near the second, is kept.  What
  holds: the result keeps the order of the input and holds no two near-duplicates; a text
  with no near-duplicate before it in the input is kept; a text that is not in the result
  has a near-duplicate before it in the input that is.  In the pipeline the input is the
  filtered list, which follows the generation order of the candidates: structural
  matches, then structured data, then meta tags.
\<close>

theorem remove_duplicates_greedy:
  "remove_duplicates xs = dedup_spec [] xs \<and>
   subseq (remove_duplicates xs) xs \<and>
   far_apart (remove_duplicates xs) \<and>
   (\<forall>i < length xs. (\<forall>j < i. \<not> near (xs ! i) (xs ! j)) \<longrightarrow> xs ! i \<in> set (remove_duplicates xs)) \<and>
   (\<forall>i < length xs. xs ! i \<notin> set (remove_duplicates xs) \<longrightarrow>
        (\<exists>j < i. xs ! j \<in> set (remove_duplicates xs) \<and> near (xs ! i) (xs ! j))) \<and>
   (filter_quality_abstracts cfg (candidates html) = Inr filtered \<longrightarrow>
        survivors cfg html = Inr (remove_duplicates filtered) \<and>
        subseq (map Inr filtered)
          (map clean_candidate
             (map JStr (extract_patterns html) @ extract_json_ld html @ map JStr (extract_meta_tags html))))"
proof -
  have kept: "xs ! i \<in> set (remove_duplicates xs)"
    if "i < length xs" and "\<forall>j < i. \<not> near (xs ! i) (xs ! j)" for i
  proof -
    from remove_duplicates_repr [OF that(1)]
    obtain j where j: "j \<le> i" "xs ! j \<in> set (remove_duplicates xs)" "near (xs ! i) (xs ! j)"
      by blast
    with that(2) have "j = i" by (cases "j < i") auto
    with j show ?thesis by simp
  qed
  have skipped: "\<exists>j < i. xs ! j \<in> set (remove_duplicates xs) \<and> near (xs ! i) (xs ! j)"
    if "i < length xs" and "xs ! i \<notin> set (remove_duplicates xs)" for i
  proof -
    from remove_duplicates_repr [OF that(1)]
    obtain j where j: "j \<le> i" "xs ! j \<in> set (remove_duplicates xs)" "near (xs ! i) (xs ! j)"
      by blast
    with that(2) have "j < i" by (cases "j = i") auto
    with j show ?thesis by blast
  qed
  have order: "survivors cfg html = Inr (remove_duplicates filtered) \<and>
        subseq (map Inr filtered)
          (map clean_candidate
             (map JStr (extract_patterns html) @ extract_json_ld html @ map JStr (extract_meta_tags html)))"
    if "filter_quality_abstracts cfg (candidates html) = Inr filtered"
    using that filter_loop_order [of cfg "[]" "candidates html" filtered]
    by (simp add: survivors_def filter_quality_abstracts_def candidates_def)
  from kept skipped order show ?thesis
    by (simp add: remove_duplicates_spec [symmetric] remove_duplicates_subseq remove_duplicates_far)
qed

theorem remove_duplicates_greedy_witness:
  "remove_duplicates [replicate 60 97, replicate 100 98, replicate 70 99, replicate 200 (100::nat)]
     = [replicate 60 97, replicate 200 100] \<and>
   [replicate 60 97, replicate 100 98, replicate 70 99, replicate 200 (100::nat)] ! 3
      \<in> set (remove_duplicates [replicate 60 97, replicate 100 98, replicate 70 99, replicate 200 100]) \<and>
   [replicate 60 97, replicate 100 98, replicate 70 99, replicate 200 (100::nat)] ! 2
      \<notin> set (remove_duplicates [replicate 60 97, replicate 100 98, replicate 70 99, replicate 200 100]) \<and>
   (\<exists>j < 2. [replicate 60 97, replicate 100 98, replicate 70 99, replicate 200 (100::nat)] ! j
        \<in> set (remove_duplicates [replicate 60 97, replicate 100 98, replicate 70 99, replicate 200 100]) \<and>
      near ([replicate 60 97, replicate 100 98, replicate 70 99, replicate 200 (100::nat)] ! 2)
           ([replicate 60 97, replicate 100 98, replicate 70 99, replicate 200 (100::nat)] ! j)) \<and>
   filter_quality_abstracts \<lparr>min_length = 0, max_length = 5000, verbose = False\<rparr> (candidates example_html) = Inr [example_text, example_text] \<and>
   survivors \<lparr>min_length = 0, max_length = 5000, verbose = False\<rparr> example_html = Inr (remove_duplicates [example_text, example_text]) \<and>
   remove_duplicates [example_text, example_text] = [example_text]"
proof -
  let ?xs = "[replicate 60 97, replicate 100 98, replicate 70 99, replicate 200 (100::nat)]"
  note t = remove_duplicates_greedy [of ?xs "\<lparr>min_length = 0, max_length = 5000, verbose = False\<rparr>" example_html "[example_text, example_text]"]
  have r: "remove_duplicates ?xs = [replicate 60 97, replicate 200 100]"
    using t by simp
  have far: "\<forall>j < 3. \<not> near (?xs ! 3) (?xs ! j)"
    by (simp add: near_def less_Suc_eq numeral_3_eq_3)
  have l: "(3::nat) < length ?xs" "(2::nat) < length ?xs"
    by simp_all
  from t l(1) far have k: "?xs ! 3 \<in> set (remove_duplicates ?xs)"
    by blast
  have n: "?xs ! 2 \<notin> set (remove_duplicates ?xs)"
    by (simp add: r)
  from t l(2) n have e: "\<exists>j < 2. ?xs ! j \<in> set (remove_duplicates ?xs) \<and> near (?xs ! 2) (?xs ! j)"
    by blast
  have f: "filter_quality_abstracts \<lparr>min_length = 0, max_length = 5000, verbose = False\<rparr> (candidates example_html) = Inr [example_text, example_text]"
    by (simp add: example_filtered)
  from t f have s: "survivors \<lparr>min_length = 0, max_length = 5000, verbose = False\<rparr> example_html = Inr (remove_duplicates [example_text, example_text])"
    by blast
  have d: "remove_duplicates [example_text, example_text] = [example_text]"
    by (simp add: remove_duplicates_spec near_def)
  from r k n e f s d show ?thesis
    by blast
qed

theorem remove_duplicates_earliest_counterexample:
  "near ([replicate 200 97, replicate 160 98, replicate 120 (99::nat)] ! 1)
        ([replicate 200 97, replicate 160 98, replicate 120 (99::nat)] ! 2) \<and>
   [replicate 200 97, replicate 160 98, replicate 120 (99::nat)] ! 2
      \<in> set (remove_duplicates [replicate 200 97, replicate 160 98, replicate 120 99]) \<and>
   [replicate 200 97, replicate 160 98, replicate 120 (99::nat)] ! 1
      \<notin> set (remove_duplicates [replicate 200 97, replicate 160 98, replicate 120 99])"
  by (simp add: remove_duplicates_spec near_def)

text \<open>
  Claim C8.  The result of a mode depends on the document, \<open>min_length\<close> and
  \<open>max_length\<close> only: two configurations that agree on the two bounds give the same
  result, whatever \<open>verbose\<close> is.  The modes are functions of the configuration and the
  document: no call leaves anything behind for the next.
\<close>

theorem result_independent_of_verbose:
  "min_length cfg = min_length cfg' \<Longrightarrow> max_length cfg = max_length cfg' \<Longrightarrow>
   snd (extract' cfg html) = snd (extract' cfg' html) \<and>
   extract_all cfg html = extract_all cfg' html \<and>
   snd (extract_with_metadata cfg html) = snd (extract_with_metadata cfg' html)"
proof -
  assume "min_length cfg = min_length cfg'" and "max_length cfg = max_length cfg'"
  then have s: "survivors cfg html = survivors cfg' html"
    by (rule survivors_config)
  have e: "snd (extract' cfg html) = snd (extract' cfg' html)"
    by (simp add: extract_survivors s)
  have m: "snd (extract_with_metadata c html) =
      (case snd (extract' c html) of
         Inl err \<Rightarrow> Inl err
       | Inr None \<Rightarrow> Inr None
       | Inr (Some found) \<Rightarrow>
           if found = [] then Inr None
           else Inr (Some \<lparr>abstract = found, length_chars = length found,
                  words_count = length (py_split found), sentence_count = length (sentences found),
                  has_numbers = (re_search [One Digit] found \<noteq> None)\<rparr>))" for c
    by (cases "extract' c html") (auto simp: extract_with_metadata_def split: sum.splits option.splits)
  show ?thesis
    by (simp add: e m extract_all_survivors s)
qed

theorem result_independent_of_verbose_witness:
  "snd (extract' \<lparr>min_length = 0, max_length = 5000, verbose = True\<rparr> example_html) = snd (extract' \<lparr>min_length = 0, max_length = 5000, verbose = False\<rparr> example_html) \<and>
   extract_all \<lparr>min_length = 0, max_length = 5000, verbose = True\<rparr> example_html = extract_all \<lparr>min_length = 0, max_length = 5000, verbose = False\<rparr> example_html \<and>
   snd (extract_with_metadata \<lparr>min_length = 0, max_length = 5000, verbose = True\<rparr> example_html) = snd (extract_with_metadata \<lparr>min_length = 0, max_length = 5000, verbose = False\<rparr> example_html) \<and>
   snd (extract' \<lparr>min_length = 0, max_length = 5000, verbose = False\<rparr> example_html) = Inr (Some example_text) \<and>
   fst (extract' \<lparr>min_length = 0, max_length = 5000, verbose = True\<rparr> example_html) \<noteq> fst (extract' \<lparr>min_length = 0, max_length = 5000, verbose = False\<rparr> example_html)"
  using result_independent_of_verbose [of "\<lparr>min_length = 0, max_length = 5000, verbose = True\<rparr>" "\<lparr>min_length = 0, max_length = 5000, verbose = False\<rparr>" example_html]
  by (simp add: example_extract say_def)



text \<open>
  Claim C10.  The two modes agree: \<open>extract\<close> returns \<open>None\<close> exactly when
  \<open>extract_all\<close> returns the empty list, the text that \<open>extract\<close> returns is the first
  of the list that \<open>extract_all\<close> returns, and the two raise the same exceptions.
\<close>

theorem extract_agrees_with_extract_all:
  "(snd (extract' cfg html) = Inr None \<longleftrightarrow> extract_all cfg html = Inr []) \<and>
   (snd (extract' cfg html) = Inr (Some t) \<longrightarrow> (\<exists>ts. extract_all cfg html = Inr (t # ts))) \<and>
   (snd (extract' cfg html) = Inl err \<longleftrightarrow> extract_all cfg html = Inl err)"
proof -
  have a: "snd (extract' cfg html) = Inr None \<longleftrightarrow> extract_all cfg html = Inr []"
    by (auto simp: extract_survivors extract_all_survivors sort_longest_first_nil
          split: sum.splits list.splits)
  have c: "snd (extract' cfg html) = Inl err \<longleftrightarrow> extract_all cfg html = Inl err"
    by (auto simp: extract_survivors extract_all_survivors split: sum.splits list.splits)
  have b: "\<exists>ts. extract_all cfg html = Inr (t # ts)" if "snd (extract' cfg html) = Inr (Some t)"
  proof -
    from that obtain u us where us: "survivors cfg html = Inr (u # us)" and t: "t = max_from u us"
      by (auto simp: extract_survivors split: sum.splits list.splits)
    let ?ts = "sort_longest_first (u # us)"
    have all: "extract_all cfg html = Inr ?ts"
      using us by (simp add: extract_all_survivors)
    have "?ts \<noteq> []" by (simp add: sort_longest_first_nil)
    then obtain y ys where y: "?ts = y # ys" by (cases ?ts) auto
    have "y \<in> set (u # us)"
      using sort_longest_first_set [of "u # us"] y by auto
    moreover have "\<forall>x \<in> set (u # us). length x \<le> length y"
      using sort_longest_first_hd [OF y] by blast
    moreover have "\<forall>x \<in> set (u # us). length x \<le> length t"
      using max_from_longest [of _ u us] t by blast
    moreover have "t \<in> set (u # us)"
      using max_from_mem [of u us] t by simp
    ultimately have "t = y"
      using far_apart_longest [of "u # us" t y] survivors_far [OF us] by blast
    with all y show ?thesis by simp
  qed
  from a b c show ?thesis by blast
qed

theorem extract_agrees_with_extract_all_witness:
  "snd (extract' \<lparr>min_length = 0, max_length = 5000, verbose = False\<rparr> example_html) = Inr (Some example_text) \<and>
   (\<exists>ts. extract_all \<lparr>min_length = 0, max_length = 5000, verbose = False\<rparr> example_html = Inr (example_text # ts)) \<and>
   snd (extract' \<lparr>min_length = 0, max_length = 5000, verbose = False\<rparr> []) = Inr None \<and> extract_all \<lparr>min_length = 0, max_length = 5000, verbose = False\<rparr> [] = Inr [] \<and>
   snd (extract' \<lparr>min_length = 0, max_length = 5000, verbose = False\<rparr> number_html) = Inl TypeError \<and> extract_all \<lparr>min_length = 0, max_length = 5000, verbose = False\<rparr> number_html = Inl TypeError"
proof -
  have a: "snd (extract' \<lparr>min_length = 0, max_length = 5000, verbose = False\<rparr> example_html) = Inr (Some example_text)"
    by (simp add: example_extract)
  have b: "extract_all \<lparr>min_length = 0, max_length = 5000, verbose = False\<rparr> [] = Inr []"
    by (simp add: extract_all_survivors empty_survivors sort_longest_first_def)
  have c: "extract_all \<lparr>min_length = 0, max_length = 5000, verbose = False\<rparr> number_html = Inl TypeError"
    by (simp add: extract_all_survivors number_survivors)
  from extract_agrees_with_extract_all [of "\<lparr>min_length = 0, max_length = 5000, verbose = False\<rparr>" example_html example_text] a
    extract_agrees_with_extract_all [of "\<lparr>min_length = 0, max_length = 5000, verbose = False\<rparr>" "[]"] b
    extract_agrees_with_extract_all [of "\<lparr>min_length = 0, max_length = 5000, verbose = False\<rparr>" number_html _ TypeError] c
  show ?thesis by blast
qed

end
